theory Spec2Isabelle
  imports Complex_Main
begin

section \<open>Arrays, errors and numeric results\<close>

text \<open>
  The measures of \<^verbatim>\<open>pairwise_measures.py\<close> and \<^verbatim>\<open>prob_pairwise_measures.py\<close> work on
  numpy arrays. An array is modelled by its shape and its elements in C (row-major)
  order. Element values are real numbers: the model does not round, so a count or a
  ratio is the exact value that the floating-point code approximates.
\<close>

record 'a ndarray =
  shape :: "nat list"
  flat :: "'a list"

definition wf_array :: "'a ndarray \<Rightarrow> bool" where
  "wf_array a \<longleftrightarrow> length (flat a) = prod_list (shape a)"

text \<open>\<^verbatim>\<open>np.size\<close>: the number of elements.\<close>

definition np_size :: "'a ndarray \<Rightarrow> nat" where
  "np_size a = prod_list (shape a)"

text \<open>\<^verbatim>\<open>np.sum\<close> over all elements.\<close>

definition np_sum :: "real ndarray \<Rightarrow> real" where
  "np_sum a = sum_list (flat a)"

text \<open>
  Element-wise operations on one array and on two arrays of the same shape (the
  constructor's contract is that \<^verbatim>\<open>pred\<close> and \<^verbatim>\<open>ref\<close> have the same shape).
\<close>

definition arr_map :: "('a \<Rightarrow> 'b) \<Rightarrow> 'a ndarray \<Rightarrow> 'b ndarray" where
  "arr_map f a = \<lparr>shape = shape a, flat = map f (flat a)\<rparr>"

definition arr_map2 :: "('a \<Rightarrow> 'b \<Rightarrow> 'c) \<Rightarrow> 'a ndarray \<Rightarrow> 'b ndarray \<Rightarrow> 'c ndarray" where
  "arr_map2 f a b = \<lparr>shape = shape a, flat = map2 f (flat a) (flat b)\<rparr>"

text \<open>
  The exceptions that the modelled code paths can raise. \<open>Undocumented\<close> is not an
  exception: it marks a library call outside the documented behaviour of the library,
  where the model stops.
\<close>

datatype error =
  IndexError | RuntimeError | ValueError | ZeroDivisionError | UnboundLocalError | Undocumented

text \<open>
  A numpy floating-point scalar: a finite value, an infinity or not-a-number. numpy
  division does not raise on a zero denominator: it gives \<^verbatim>\<open>nan\<close> for \<^verbatim>\<open>0/0\<close> and a signed
  infinity otherwise.
\<close>

datatype npfloat = Fin real | PosInf | NegInf | NaN

definition np_div :: "real \<Rightarrow> real \<Rightarrow> npfloat" where
  "np_div a b =
     (if b = 0 then (if a = 0 then NaN else if 0 < a then PosInf else NegInf)
      else Fin (a / b))"

text \<open>The comparison \<^verbatim>\<open><=\<close> of floating-point values: false as soon as one side is \<^verbatim>\<open>nan\<close>.\<close>

fun np_le :: "npfloat \<Rightarrow> npfloat \<Rightarrow> bool" where
  "np_le NaN _ = False"
| "np_le _ NaN = False"
| "np_le NegInf _ = True"
| "np_le _ PosInf = True"
| "np_le (Fin x) (Fin y) = (x \<le> y)"
| "np_le _ _ = False"

section \<open>The comparison objects\<close>

text \<open>
  The fields that \<^verbatim>\<open>BinaryPairwiseMeasures.__init__\<close> and
  \<^verbatim>\<open>ProbabilityPairwiseMeasures.__init__\<close> store. The decorator \<^verbatim>\<open>CacheFunctionOutput\<close>
  memoises a method per object and argument tuple; the methods are pure, so the model
  calls them directly.
\<close>

record measures_base =
  pred :: "real ndarray"
  ref :: "real ndarray"
  flag_empty :: bool
  dict_args :: "string \<rightharpoonup> real"

record binary_measures = measures_base +
  neigh :: nat
  pixdim :: "real list"

section \<open>Confusion counts of a hard-mask pair\<close>

definition indicator :: "bool \<Rightarrow> real" where
  "indicator b = (if b then 1 else 0)"

definition fp_map :: "'m measures_base_scheme \<Rightarrow> real ndarray" where
  "fp_map m = arr_map2 (\<lambda>p r. indicator (p - r > 0)) (pred m) (ref m)"


definition tp_map :: "'m measures_base_scheme \<Rightarrow> real ndarray" where
  "tp_map m = arr_map2 (\<lambda>p r. indicator (r + p > 1)) (pred m) (ref m)"


definition fp :: "'m measures_base_scheme \<Rightarrow> real" where
  "fp m = np_sum (fp_map m)"


definition tp :: "'m measures_base_scheme \<Rightarrow> real" where
  "tp m = np_sum (tp_map m)"


definition n_pos_ref :: "'m measures_base_scheme \<Rightarrow> real" where
  "n_pos_ref m = np_sum (ref m)"

definition n_neg_ref :: "'m measures_base_scheme \<Rightarrow> real" where
  "n_neg_ref m = np_sum (arr_map (\<lambda>r. 1 - r) (ref m))"

text \<open>
  \<^verbatim>\<open>positive_predictive_values\<close>: the sentinel \<^verbatim>\<open>-1\<close> under the \<^verbatim>\<open>empty\<close> flag, the ratio
  otherwise.
\<close>

definition positive_predictive_values :: "'m measures_base_scheme \<Rightarrow> npfloat" where
  "positive_predictive_values m =
     (if flag_empty m then Fin (- 1) else np_div (tp m) (tp m + fp m))"

definition binary_mask :: "real ndarray \<Rightarrow> bool" where
  "binary_mask a \<longleftrightarrow> wf_array a \<and> list_all (\<lambda>v. v = 0 \<or> v = 1) (flat a)"

section \<open>Threshold sweep over a probability map\<close>

text \<open>
  \<^verbatim>\<open>ProbabilityPairwiseMeasures\<close> adds the optional case identifiers (\<^verbatim>\<open>case\<close>, a
  one-dimensional integer array) to the common fields.
\<close>

record probability_measures = measures_base +
  case_ids :: "int list option"

text \<open>The four maps at a threshold: \<^verbatim>\<open>pred_bin = self.pred >= thresh\<close>.\<close>

definition pred_bin :: "'m measures_base_scheme \<Rightarrow> real \<Rightarrow> real ndarray" where
  "pred_bin m thresh = arr_map (\<lambda>p. indicator (p \<ge> thresh)) (pred m)"

definition fp_map_thr :: "'m measures_base_scheme \<Rightarrow> real \<Rightarrow> real ndarray" where
  "fp_map_thr m thresh = arr_map2 (\<lambda>b r. indicator (b - r > 0)) (pred_bin m thresh) (ref m)"

definition fn_map_thr :: "'m measures_base_scheme \<Rightarrow> real \<Rightarrow> real ndarray" where
  "fn_map_thr m thresh = arr_map2 (\<lambda>b r. indicator (r - b > 0)) (pred_bin m thresh) (ref m)"

definition tp_map_thr :: "'m measures_base_scheme \<Rightarrow> real \<Rightarrow> real ndarray" where
  "tp_map_thr m thresh = arr_map2 (\<lambda>b r. indicator (r + b > 1)) (pred_bin m thresh) (ref m)"

definition tn_map_thr :: "'m measures_base_scheme \<Rightarrow> real \<Rightarrow> real ndarray" where
  "tn_map_thr m thresh = arr_map2 (\<lambda>b r. indicator (r + b < 0.5)) (pred_bin m thresh) (ref m)"

definition fp_thr :: "'m measures_base_scheme \<Rightarrow> real \<Rightarrow> real" where
  "fp_thr m thresh = np_sum (fp_map_thr m thresh)"

definition fn_thr :: "'m measures_base_scheme \<Rightarrow> real \<Rightarrow> real" where
  "fn_thr m thresh = np_sum (fn_map_thr m thresh)"

definition tp_thr :: "'m measures_base_scheme \<Rightarrow> real \<Rightarrow> real" where
  "tp_thr m thresh = np_sum (tp_map_thr m thresh)"

definition tn_thr :: "'m measures_base_scheme \<Rightarrow> real \<Rightarrow> real" where
  "tn_thr m thresh = np_sum (tn_map_thr m thresh)"

definition positive_predictive_values_thr :: "'m measures_base_scheme \<Rightarrow> real \<Rightarrow> npfloat" where
  "positive_predictive_values_thr m thresh =
     (if flag_empty m then Fin (- 1)
      else np_div (tp_thr m thresh) (tp_thr m thresh + fp_thr m thresh))"

definition specificity_thr :: "'m measures_base_scheme \<Rightarrow> real \<Rightarrow> npfloat" where
  "specificity_thr m thresh = np_div (tn_thr m thresh) (n_neg_ref m)"

definition sensitivity_thr :: "'m measures_base_scheme \<Rightarrow> real \<Rightarrow> npfloat" where
  "sensitivity_thr m thresh = np_div (tp_thr m thresh) (n_pos_ref m)"

text \<open>\<^verbatim>\<open>np.mean\<close> of a one-dimensional array: \<^verbatim>\<open>nan\<close> when it is empty.\<close>

definition np_mean :: "real list \<Rightarrow> npfloat" where
  "np_mean xs = np_div (sum_list xs) (real (length xs))"

text \<open>
  \<^verbatim>\<open>np.sum(np.reshape(a, [-1, k]), axis=0)\<close> on the elements in C order: entry \<open>j\<close> adds the
  elements whose position is \<open>j\<close> modulo \<open>k\<close>.
\<close>

definition column_sums :: "nat \<Rightarrow> real list \<Rightarrow> real list" where
  "column_sums k xs =
     map (\<lambda>j. sum_list (map (\<lambda>i. xs ! (i * k + j)) [0..<length xs div k])) [0..<k]"

text \<open>
  \<^verbatim>\<open>a[ind]\<close> for a list of indices along the first axis: the selected slices, one after
  the other; an index beyond the axis raises.
\<close>

definition take_slices :: "'a ndarray \<Rightarrow> nat list \<Rightarrow> error + 'a list" where
  "take_slices a ind =
     (let n0 = (case shape a of [] \<Rightarrow> 0 | n # _ \<Rightarrow> n); w = prod_list (tl (shape a))
      in if list_ex (\<lambda>i. n0 \<le> i) ind then Inl IndexError
         else Inr (concat (map (\<lambda>i. take w (drop (i * w) (flat a))) ind)))"

text \<open>
  The body of the loop of \<^verbatim>\<open>fppi_thr\<close> over the cases: the false positives of the
  comparison restricted to the slices of case \<open>f\<close>.
\<close>

definition case_fp_thr :: "'m measures_base_scheme \<Rightarrow> int list \<Rightarrow> real \<Rightarrow> nat \<Rightarrow> error + real" where
  "case_fp_thr m cs thresh f =
     (let ind_case = filter (\<lambda>i. cs ! i = int f) [0..<length cs]
      in case take_slices (pred m) ind_case of
           Inl e \<Rightarrow> Inl e
         | Inr ps \<Rightarrow>
             (case take_slices (ref m) ind_case of
                Inl e \<Rightarrow> Inl e
              | Inr rs \<Rightarrow>
                  Inr (sum_list (map2 (\<lambda>p r. indicator (indicator (p \<ge> thresh) - r > 0)) ps rs))))"

fun collect :: "('a \<Rightarrow> error + 'b) \<Rightarrow> 'a list \<Rightarrow> error + 'b list" where
  "collect g [] = Inr []"
| "collect g (x # xs) =
     (case g x of
        Inl e \<Rightarrow> Inl e
      | Inr y \<Rightarrow> (case collect g xs of Inl e \<Rightarrow> Inl e | Inr ys \<Rightarrow> Inr (y # ys)))"

definition fppi_thr :: "'m probability_measures_scheme \<Rightarrow> real \<Rightarrow> error + npfloat" where
  "fppi_thr m thresh =
     (case case_ids m of
        Some cs \<Rightarrow>
          (if cs = [] then Inl ValueError
           else (case collect (case_fp_thr m cs thresh) [0..<nat (Max (set cs))] of
                   Inl e \<Rightarrow> Inl e
                 | Inr list_sum \<Rightarrow> Inr (np_mean list_sum)))
      | None \<Rightarrow>
          (case shape (ref m) of
             [] \<Rightarrow> Inl IndexError
           | _ # _ \<Rightarrow>
               (if last (shape (ref m)) = 0 then Inl ValueError
                else Inr (np_mean (column_sums (last (shape (ref m)))
                                     (flat (fp_map_thr m thresh)))))))"

text \<open>\<^verbatim>\<open>np.unique(a, return_counts=True)\<close>: the distinct values in increasing order, and how
  often each occurs.\<close>

definition np_unique :: "real list \<Rightarrow> real list" where
  "np_unique xs = sort (remdups xs)"

definition np_unique_counts :: "real list \<Rightarrow> (real \<times> nat) list" where
  "np_unique_counts xs = map (\<lambda>v. (v, count_list xs v)) (np_unique xs)"

text \<open>
  The loop that coalesces thresholds, over the pairs \<^verbatim>\<open>(f, c)\<close>. Its state is
  \<^verbatim>\<open>unique_new_thresh\<close>, \<^verbatim>\<open>current_count\<close> and \<^verbatim>\<open>new_thresh\<close>, which is unbound until
  the first branch has run once.
\<close>

fun coalesce_loop ::
  "real \<Rightarrow> (real \<times> nat) list \<Rightarrow> real list \<Rightarrow> nat \<Rightarrow> real option \<Rightarrow> error + real list" where
  "coalesce_loop numb_samples_temp [] unique_new_thresh current_count new_thresh =
     Inr unique_new_thresh"
| "coalesce_loop numb_samples_temp ((f, c) # rest) unique_new_thresh current_count new_thresh =
     (if real current_count < numb_samples_temp
      then coalesce_loop numb_samples_temp rest unique_new_thresh (current_count + c) (Some f)
      else (case new_thresh of
              None \<Rightarrow> Inl UnboundLocalError
            | Some t \<Rightarrow> coalesce_loop numb_samples_temp rest (unique_new_thresh @ [t]) 0 new_thresh))"

definition select_thresholds :: "'m measures_base_scheme \<Rightarrow> nat \<Rightarrow> nat \<Rightarrow> error + real list" where
  "select_thresholds m max_number_samples max_number_thresh =
     (let unique_thresh = np_unique (flat (pred m))
      in if length unique_thresh < max_number_thresh then Inr unique_thresh
         else if np_size (ref m) < max_number_samples then Inr unique_thresh
         else if max_number_samples = 0 \<or> max_number_thresh = 0 then Inl ZeroDivisionError
         else coalesce_loop (real (np_size (pred m)) / real max_number_thresh)
                (np_unique_counts (flat (pred m))) [0] 0 None)"

text \<open>
  \<^verbatim>\<open>all_multi_threshold_values\<close>: the thresholds in decreasing order
  (\<^verbatim>\<open>np.sort(...)[::-1]\<close>) and, for each, sensitivity, specificity, precision and false
  positives per case.
\<close>

definition all_multi_threshold_values ::
  "'m probability_measures_scheme \<Rightarrow> nat \<Rightarrow> nat \<Rightarrow>
     error + (real list \<times> npfloat list \<times> npfloat list \<times> npfloat list \<times> npfloat list)" where
  "all_multi_threshold_values m max_number_samples max_number_thresh =
     (case select_thresholds m max_number_samples max_number_thresh of
        Inl e \<Rightarrow> Inl e
      | Inr unique_new_thresh \<Rightarrow>
          (let thr = rev (sort unique_new_thresh)
           in case collect (fppi_thr m) thr of
                Inl e \<Rightarrow> Inl e
              | Inr list_fppi \<Rightarrow>
                  Inr (thr, map (sensitivity_thr m) thr, map (specificity_thr m) thr,
                       map (positive_predictive_values_thr m) thr, list_fppi)))"

section \<open>Calibration error\<close>

text \<open>
  \<^verbatim>\<open>np.arange(start, stop, step)\<close>: the values \<open>start + i * step\<close> for
  \<open>i < \<lceil>(stop - start) / step\<rceil>\<close>.
\<close>

definition np_arange :: "real \<Rightarrow> real \<Rightarrow> real \<Rightarrow> real list" where
  "np_arange start stop step =
     map (\<lambda>i. start + real i * step) [0..<nat \<lceil>(stop - start) / step\<rceil>]"

text \<open>
  The body of the loop of \<^verbatim>\<open>expectation_calibration_error\<close> for one bin \<^verbatim>\<open>(l, u)\<close>:
  the selections \<^verbatim>\<open>ref_sel\<close> and \<^verbatim>\<open>pred_sel\<close> (\<^verbatim>\<open>np.where\<close> puts \<open>-1\<close> outside the bin
  and the mask \<^verbatim>\<open>> -1\<close> removes it), and the value appended to \<^verbatim>\<open>list_values\<close>.
  \<^verbatim>\<open>prop\<close> and the mean of \<^verbatim>\<open>pred_sel\<close> are only used when \<^verbatim>\<open>nsamples\<close> is not zero;
  \<^verbatim>\<open>pred_sel\<close> is then not empty either (lemma \<open>pred_sel_nonempty\<close>), so both
  divisions are by a positive count.
\<close>

definition ref_sel :: "real \<Rightarrow> real \<Rightarrow> real list \<Rightarrow> real list \<Rightarrow> real list" where
  "ref_sel l u ps rs =
     (let ref_tmp = map2 (\<lambda>p r. if p > l \<and> p \<le> u then r else - 1) ps rs
      in filter (\<lambda>v. v > - 1) ref_tmp)"

definition pred_sel :: "real \<Rightarrow> real \<Rightarrow> real list \<Rightarrow> real list" where
  "pred_sel l u ps =
     (let pred_tmp = map (\<lambda>p. if p > l \<and> p \<le> u then p else - 1) ps
      in filter (\<lambda>v. v > - 1) pred_tmp)"

definition bin_value :: "real \<Rightarrow> real \<Rightarrow> real list \<Rightarrow> real list \<Rightarrow> real" where
  "bin_value l u ps rs =
     (let nsamples = length (ref_sel l u ps rs);
          prop = sum_list (ref_sel l u ps rs) / real nsamples
      in if nsamples = 0 then 0
         else real nsamples
              * \<bar>prop - sum_list (pred_sel l u ps) / real (length (pred_sel l u ps))\<bar>)"

text \<open>The loop over the bins, with its state \<^verbatim>\<open>list_values\<close> and \<^verbatim>\<open>numb_samples\<close>.\<close>

fun ece_loop ::
  "(real \<times> real) list \<Rightarrow> real list \<Rightarrow> real list \<Rightarrow> real list \<Rightarrow> nat \<Rightarrow> real list \<times> nat" where
  "ece_loop [] ps rs list_values numb_samples = (list_values, numb_samples)"
| "ece_loop ((l, u) # bins) ps rs list_values numb_samples =
     ece_loop bins ps rs (list_values @ [bin_value l u ps rs])
       (numb_samples + length (ref_sel l u ps rs))"

text \<open>
  The bins and the state after the loop: \<^verbatim>\<open>1.0 / nbins\<close> raises for \<^verbatim>\<open>nbins = 0\<close>.
\<close>

definition ece_bins :: "'m measures_base_scheme \<Rightarrow> error + (real list \<times> nat)" where
  "ece_bins m =
     (let nbins = (case dict_args m ''bins_ece'' of Some n \<Rightarrow> n | None \<Rightarrow> 10)
      in if nbins = 0 then Inl ZeroDivisionError
         else (let step = 1 / nbins;
                   range_values = np_arange 0 1.00001 step
               in Inr (ece_loop (zip (butlast range_values) (tl range_values))
                         (flat (pred m)) (flat (ref m)) [] 0)))"

definition expectation_calibration_error :: "'m measures_base_scheme \<Rightarrow> error + npfloat" where
  "expectation_calibration_error m =
     (case ece_bins m of
        Inl e \<Rightarrow> Inl e
      | Inr (list_values, numb_samples) \<Rightarrow> Inr (np_div (sum_list list_values) (real numb_samples)))"

text \<open>The comparison without the voxels whose predicted probability is exactly 0.\<close>

definition without_zero_pred :: "'m measures_base_scheme \<Rightarrow> 'm measures_base_scheme" where
  "without_zero_pred m =
     (let kept = filter (\<lambda>(p, r). p \<noteq> 0) (zip (flat (pred m)) (flat (ref m)))
      in m\<lparr>pred := \<lparr>shape = [length kept], flat = map fst kept\<rparr>,
            ref := \<lparr>shape = [length kept], flat = map snd kept\<rparr>\<rparr>)"

section \<open>Voxel coordinates\<close>

text \<open>
  The morphological operations need the position of each voxel. A coordinate is a list
  of integers, one per axis; \<open>indices\<close> lists the coordinates of an array in C order, and
  \<open>ravel\<close> is the position of a coordinate in that order.
\<close>

type_synonym coord = "int list"

definition indices :: "nat list \<Rightarrow> coord list" where
  "indices shp = product_lists (map (\<lambda>n. map int [0..<n]) shp)"

definition in_bounds :: "nat list \<Rightarrow> coord \<Rightarrow> bool" where
  "in_bounds shp c \<longleftrightarrow> list_all2 (\<lambda>i n. 0 \<le> i \<and> i < int n) c shp"

definition ravel :: "nat list \<Rightarrow> coord \<Rightarrow> nat" where
  "ravel shp c = foldl (\<lambda>acc (n, i). acc * n + nat i) 0 (zip shp c)"

text \<open>The element at a coordinate, or \<open>None\<close> outside the array.\<close>

definition lookup :: "'a ndarray \<Rightarrow> coord \<Rightarrow> 'a option" where
  "lookup a c = (if in_bounds (shape a) c then Some (flat a ! ravel (shape a) c) else None)"

definition from_fun :: "nat list \<Rightarrow> (coord \<Rightarrow> 'a) \<Rightarrow> 'a ndarray" where
  "from_fun shp f = \<lparr>shape = shp, flat = map f (indices shp)\<rparr>"

text \<open>
  The offsets of the default structuring element of \<^verbatim>\<open>scipy.ndimage\<close>
  (\<^verbatim>\<open>generate_binary_structure(rank, 1)\<close>): the voxel itself and its two neighbours along
  each axis.
\<close>

definition unit_offsets :: "nat \<Rightarrow> coord list" where
  "unit_offsets rank =
     concat (map (\<lambda>k. [(replicate rank 0)[k := 1], (replicate rank 0)[k := - 1]]) [0..<rank])"

definition structure_offsets :: "nat \<Rightarrow> coord list" where
  "structure_offsets rank = replicate rank 0 # unit_offsets rank"

definition shift :: "coord \<Rightarrow> coord \<Rightarrow> coord" where
  "shift c d = map2 (+) c d"

section \<open>Morphology\<close>

text \<open>
  The wrap-around of \<^verbatim>\<open>int8\<close> arithmetic, and the conversion
  \<^verbatim>\<open>np.asarray(binary_img, dtype=np.int8)\<close> of \<^verbatim>\<open>MorphologyOps.__init__\<close>, which truncates
  towards zero. Both are the identity on the mask values 0 and 1.
\<close>

definition int8 :: "int \<Rightarrow> int" where
  "int8 i = (i + 128) mod 256 - 128"

definition as_int8 :: "real \<Rightarrow> int" where
  "as_int8 v = int8 (if 0 \<le> v then \<lfloor>v\<rfloor> else \<lceil>v\<rceil>)"

text \<open>
  The object \<^verbatim>\<open>MorphologyOps(binary_img, neigh)\<close> is represented by its field
  \<^verbatim>\<open>binary_map\<close>: no method reads \<^verbatim>\<open>neigh\<close>.
\<close>

definition MorphologyOps :: "real ndarray \<Rightarrow> nat \<Rightarrow> int ndarray" where
  "MorphologyOps binary_img num_neighbors = arr_map as_int8 binary_img"

text \<open>
  \<^verbatim>\<open>ndimage.binary_erosion(input)\<close> with its defaults (the structuring element above, one
  iteration, \<^verbatim>\<open>border_value=0\<close>): a voxel stays when the element, centred on it, lies
  inside the array on non-zero voxels only.
\<close>

definition binary_erosion :: "int ndarray \<Rightarrow> bool ndarray" where
  "binary_erosion input =
     from_fun (shape input)
       (\<lambda>c. list_all (\<lambda>d. case lookup input (shift c d) of None \<Rightarrow> False | Some v \<Rightarrow> v \<noteq> 0)
               (structure_offsets (length (shape input))))"

definition border_map :: "int ndarray \<Rightarrow> int ndarray" where
  "border_map binary_map =
     (let eroded = binary_erosion binary_map
      in arr_map2 (\<lambda>v e. int8 (v - (if e then 1 else 0))) binary_map eroded)"

text \<open>
  \<^verbatim>\<open>ndimage.label(input)\<close> with the default structuring element: the connected
  components of the non-zero voxels, numbered from 1 in the order in which a C-order
  scan meets them, and their number. The model starts from one provisional label per
  non-zero voxel (its position plus one), lets every voxel take the least label among
  itself and its non-zero neighbours as many times as there are voxels, and numbers the
  labels that remain.
\<close>

definition label_step :: "nat list \<Rightarrow> int list \<Rightarrow> int list" where
  "label_step shp labs =
     map (\<lambda>c. let l = labs ! ravel shp c
               in if l = 0 then 0
                  else fold min
                         (filter (\<lambda>v. v \<noteq> 0)
                            (map (\<lambda>d. labs ! ravel shp (shift c d))
                               (filter (\<lambda>d. in_bounds shp (shift c d))
                                  (unit_offsets (length shp))))) l)
       (indices shp)"

definition label :: "int ndarray \<Rightarrow> int ndarray \<times> nat" where
  "label input =
     (let start = map (\<lambda>(i, v). if v \<noteq> 0 then int i + 1 else 0) (enumerate 0 (flat input));
          labs = ((label_step (shape input)) ^^ length start) start;
          roots = sort (remdups (filter (\<lambda>v. v \<noteq> 0) labs))
      in (\<lparr>shape = shape input,
           flat = map (\<lambda>l. if l = 0 then 0 else int (length (filter (\<lambda>r. r \<le> l) roots))) labs\<rparr>,
          length roots))"

definition foreground_component :: "int ndarray \<Rightarrow> int ndarray \<times> nat" where
  "foreground_component binary_map = label binary_map"

section \<open>Distance fields\<close>

text \<open>
  \<^verbatim>\<open>ndimage.distance_transform_edt(input, sampling)\<close>: each non-zero voxel is replaced by
  its distance to the nearest zero voxel, the difference along axis \<open>k\<close> being scaled by
  \<open>sampling[k]\<close>; a zero voxel gets 0. A \<^verbatim>\<open>sampling\<close> sequence whose length is not the
  rank raises \<^verbatim>\<open>RuntimeError\<close>. The library does not document the transform of an array
  without any zero voxel; the model stops there with \<open>Undocumented\<close>.
\<close>

definition sq_dist :: "real list \<Rightarrow> coord \<Rightarrow> coord \<Rightarrow> real" where
  "sq_dist sampling c b =
     sum_list (map (\<lambda>(s, i, j). (s * real_of_int (i - j))\<^sup>2) (zip sampling (zip c b)))"

fun min_of :: "real \<Rightarrow> real list \<Rightarrow> real" where
  "min_of x [] = x"
| "min_of x (y # ys) = min_of (min x y) ys"

fun max_of :: "real \<Rightarrow> real list \<Rightarrow> real" where
  "max_of x [] = x"
| "max_of x (y # ys) = max_of (max x y) ys"

definition distance_transform_edt :: "int ndarray \<Rightarrow> real list \<Rightarrow> error + real ndarray" where
  "distance_transform_edt input sampling =
     (if length sampling \<noteq> length (shape input) then Inl RuntimeError
      else (case filter (\<lambda>b. lookup input b = Some 0) (indices (shape input)) of
              [] \<Rightarrow> if list_all (\<lambda>v. v = 0) (flat input)
                    then Inr (arr_map (\<lambda>v. 0) input) else Inl Undocumented
            | b # bs \<Rightarrow>
                Inr (from_fun (shape input)
                       (\<lambda>c. if lookup input c = Some 0 then 0
                            else sqrt (min_of (sq_dist sampling c b)
                                         (map (sq_dist sampling c) bs))))))"

text \<open>
  \<^verbatim>\<open>border_distance\<close>: the two border maps, and the transform of each border map
  multiplied by the other border map.
\<close>

definition border_distance ::
  "'m binary_measures_scheme \<Rightarrow> error + (real ndarray \<times> real ndarray \<times> int ndarray \<times> int ndarray)" where
  "border_distance m =
     (let border_ref = border_map (MorphologyOps (ref m) (neigh m));
          border_pred = border_map (MorphologyOps (pred m) (neigh m))
      in case distance_transform_edt border_ref (pixdim m) of
           Inl e \<Rightarrow> Inl e
         | Inr distance_ref \<Rightarrow>
             (case distance_transform_edt border_pred (pixdim m) of
                Inl e \<Rightarrow> Inl e
              | Inr distance_pred \<Rightarrow>
                  (let distance_border_pred =
                         arr_map2 (\<lambda>b d. real_of_int b * d) border_ref distance_pred;
                       distance_border_ref =
                         arr_map2 (\<lambda>b d. real_of_int b * d) border_pred distance_ref
                   in Inr (distance_border_ref, distance_border_pred, border_ref, border_pred))))"

text \<open>\<^verbatim>\<open>boundary_iou\<close>, as the code computes it.\<close>

definition int_sum :: "int ndarray \<Rightarrow> real" where
  "int_sum a = real_of_int (sum_list (flat a))"

definition boundary_iou :: "'m binary_measures_scheme \<Rightarrow> npfloat" where
  "boundary_iou m =
     (let border_ref = border_map (MorphologyOps (ref m) (neigh m));
          border_pred = border_map (MorphologyOps (pred m) (neigh m))
      in np_div (int_sum (arr_map2 (\<lambda>a b. int8 (a * b)) border_ref border_pred))
           (int_sum border_ref + int_sum border_pred))"

section \<open>Distance-based measures\<close>

text \<open>Arithmetic and maximum of floating-point scalars: \<^verbatim>\<open>nan\<close> propagates.\<close>

fun np_add :: "npfloat \<Rightarrow> npfloat \<Rightarrow> npfloat" where
  "np_add NaN _ = NaN"
| "np_add _ NaN = NaN"
| "np_add PosInf NegInf = NaN"
| "np_add NegInf PosInf = NaN"
| "np_add PosInf _ = PosInf"
| "np_add _ PosInf = PosInf"
| "np_add NegInf _ = NegInf"
| "np_add _ NegInf = NegInf"
| "np_add (Fin x) (Fin y) = Fin (x + y)"

fun np_max2 :: "npfloat \<Rightarrow> npfloat \<Rightarrow> npfloat" where
  "np_max2 NaN _ = NaN"
| "np_max2 _ NaN = NaN"
| "np_max2 PosInf _ = PosInf"
| "np_max2 _ PosInf = PosInf"
| "np_max2 NegInf y = y"
| "np_max2 x NegInf = x"
| "np_max2 (Fin x) (Fin y) = Fin (max x y)"

text \<open>\<^verbatim>\<open>np.max\<close> of an array: it raises on an empty one.\<close>

definition np_max :: "real list \<Rightarrow> error + real" where
  "np_max xs = (case xs of [] \<Rightarrow> Inl ValueError | x # ys \<Rightarrow> Inr (max_of x ys))"

text \<open>
  \<^verbatim>\<open>np.percentile(a, q)\<close> with the default linear interpolation: \<^verbatim>\<open>q\<close> outside
  \<open>[0, 100]\<close> raises, an empty array gives \<^verbatim>\<open>nan\<close>.
\<close>

definition np_percentile :: "real list \<Rightarrow> real \<Rightarrow> error + npfloat" where
  "np_percentile a q =
     (if q < 0 \<or> 100 < q then Inl ValueError
      else if a = [] then Inr NaN
      else (let s = sort a;
                h = real (length s - 1) * q / 100;
                lo = nat \<lfloor>h\<rfloor>;
                hi = min (lo + 1) (length s - 1)
            in Inr (Fin (s ! lo + (h - real lo) * (s ! hi - s ! lo)))))"

text \<open>Boolean-mask indexing \<^verbatim>\<open>a[self.ref + self.pred > 0]\<close>.\<close>

definition union_select :: "'m measures_base_scheme \<Rightarrow> real ndarray \<Rightarrow> real list" where
  "union_select m a =
     map fst (filter (\<lambda>(d, r, p). r + p > 0) (zip (flat a) (zip (flat (ref m)) (flat (pred m)))))"

text \<open>
  \<^verbatim>\<open>measured_distance\<close> returns a tuple, modelled as the list of its components: three
  components on the early return, four otherwise.
\<close>

definition measured_distance :: "'m binary_measures_scheme \<Rightarrow> real \<Rightarrow> error + npfloat list" where
  "measured_distance m perc =
     (if np_sum (arr_map2 (+) (pred m) (ref m)) = 0 then Inr [Fin 0, Fin 0, Fin 0]
      else (case border_distance m of
              Inl e \<Rightarrow> Inl e
            | Inr (ref_border_dist, pred_border_dist, ref_border, pred_border) \<Rightarrow>
                (let average_distance =
                       np_div (np_sum ref_border_dist + np_sum pred_border_dist)
                         (int_sum (arr_map2 (\<lambda>a b. int8 (a + b)) pred_border ref_border));
                     masd = np_add (np_mean (flat ref_border_dist)) (np_mean (flat pred_border_dist))
                 in case np_max (flat ref_border_dist) of
                      Inl e \<Rightarrow> Inl e
                    | Inr max_ref \<Rightarrow>
                        (case np_max (flat pred_border_dist) of
                           Inl e \<Rightarrow> Inl e
                         | Inr max_pred \<Rightarrow>
                             (case np_percentile (union_select m ref_border_dist) perc of
                                Inl e \<Rightarrow> Inl e
                              | Inr perc_ref \<Rightarrow>
                                  (case np_percentile (union_select m pred_border_dist) perc of
                                     Inl e \<Rightarrow> Inl e
                                   | Inr perc_pred \<Rightarrow>
                                       Inr [Fin (max max_ref max_pred), average_distance,
                                            np_max2 perc_ref perc_pred, masd]))))))"

text \<open>Indexing a tuple: \<^verbatim>\<open>IndexError\<close> beyond its length.\<close>

definition tuple_get :: "error + 'a list \<Rightarrow> nat \<Rightarrow> error + 'a" where
  "tuple_get t i =
     (case t of Inl e \<Rightarrow> Inl e
      | Inr xs \<Rightarrow> if i < length xs then Inr (xs ! i) else Inl IndexError)"

definition measured_average_distance :: "'m binary_measures_scheme \<Rightarrow> error + npfloat" where
  "measured_average_distance m = tuple_get (measured_distance m 95) 1"

definition measured_masd :: "'m binary_measures_scheme \<Rightarrow> error + npfloat" where
  "measured_masd m = tuple_get (measured_distance m 95) 3"

definition measured_hausdorff_distance :: "'m binary_measures_scheme \<Rightarrow> error + npfloat" where
  "measured_hausdorff_distance m = tuple_get (measured_distance m 95) 0"

definition measured_hausdorff_distance_perc :: "'m binary_measures_scheme \<Rightarrow> error + npfloat" where
  "measured_hausdorff_distance_perc m =
     (let perc = (case dict_args m ''hd'' of Some p \<Rightarrow> p | None \<Rightarrow> 95)
      in tuple_get (measured_distance m perc) 2)"

section \<open>Connected components\<close>

text \<open>
  \<^verbatim>\<open>_connected_components\<close>: the labelling of the reference, the labelling of the
  prediction and the voxel-wise product \<^verbatim>\<open>init\<close> of the two masks.
\<close>

definition connected_components ::
  "'m binary_measures_scheme \<Rightarrow> (int ndarray \<times> nat) \<times> (int ndarray \<times> nat) \<times> real ndarray" where
  "connected_components m =
     (let init = arr_map2 (*) (pred m) (ref m);
          blobs_ref = foreground_component (MorphologyOps (ref m) (neigh m));
          blobs_pred = foreground_component (MorphologyOps (pred m) (neigh m))
      in (blobs_ref, blobs_pred, init))"

text \<open>
  \<^verbatim>\<open>np.unique(mul_blobs[mul_blobs > 0])\<close> for \<^verbatim>\<open>mul_blobs = np.multiply(blobs[0], init)\<close>:
  the labels met on the intersection.
\<close>

definition list_tp :: "int ndarray \<Rightarrow> real ndarray \<Rightarrow> real list" where
  "list_tp labels init =
     (let mul_blobs = map2 (\<lambda>l i. real_of_int l * i) (flat labels) (flat init)
      in np_unique (filter (\<lambda>v. v > 0) mul_blobs))"

text \<open>\<^verbatim>\<open>connected_elements\<close> walks over \<^verbatim>\<open>range(1, blobs[1] + 1)\<close>.\<close>

definition connected_elements :: "'m binary_measures_scheme \<Rightarrow> nat \<times> nat \<times> nat" where
  "connected_elements m =
     (case connected_components m of
        (blobs_ref, blobs_pred, init) \<Rightarrow>
          (let list_blobs_ref = map int [1..<snd blobs_ref + 1];
               list_blobs_pred = map int [1..<snd blobs_pred + 1];
               list_tp_ref = list_tp (fst blobs_ref) init;
               list_tp_pred = list_tp (fst blobs_pred) init;
               list_fn = filter (\<lambda>x. real_of_int x \<notin> set list_tp_ref) list_blobs_ref;
               list_fp = filter (\<lambda>x. real_of_int x \<notin> set list_tp_pred) list_blobs_pred
           in (length list_tp_ref, length list_fp, length list_fn)))"

text \<open>
  The loops \<^verbatim>\<open>for i in list: map[blobs[0] == i] = 1\<close> of \<^verbatim>\<open>connected_errormaps\<close>.
\<close>

fun mark :: "real list \<Rightarrow> int list \<Rightarrow> int list \<Rightarrow> int list" where
  "mark [] labels cmap = cmap"
| "mark (i # rest) labels cmap =
     mark rest labels (map2 (\<lambda>l v. if real_of_int l = i then 1 else v) labels cmap)"

text \<open>\<^verbatim>\<open>connected_errormaps\<close> walks over \<^verbatim>\<open>range(1, blobs[1])\<close>.\<close>

definition connected_errormaps ::
  "'m binary_measures_scheme \<Rightarrow> int ndarray \<times> int ndarray \<times> int ndarray" where
  "connected_errormaps m =
     (case connected_components m of
        (blobs_ref, blobs_pred, init) \<Rightarrow>
          (let list_blobs_ref = map int [1..<snd blobs_ref];
               list_blobs_pred = map int [1..<snd blobs_pred];
               list_tp_ref = list_tp (fst blobs_ref) init;
               list_tp_pred = list_tp (fst blobs_pred) init;
               list_fn = filter (\<lambda>x. real_of_int x \<notin> set list_tp_ref) list_blobs_ref;
               list_fp = filter (\<lambda>x. real_of_int x \<notin> set list_tp_pred) list_blobs_pred;
               zeros = map (\<lambda>l. 0) (flat (fst blobs_ref));
               tpc_map = mark list_tp_pred (flat (fst blobs_pred))
                           (mark list_tp_ref (flat (fst blobs_ref)) zeros);
               fnc_map = mark (map real_of_int list_fn) (flat (fst blobs_ref)) zeros;
               fpc_map = mark (map real_of_int list_fp) (flat (fst blobs_pred)) zeros
           in (\<lparr>shape = shape (fst blobs_ref), flat = tpc_map\<rparr>,
               \<lparr>shape = shape (fst blobs_ref), flat = fnc_map\<rparr>,
               \<lparr>shape = shape (fst blobs_ref), flat = fpc_map\<rparr>)))"

definition detection_error :: "'m binary_measures_scheme \<Rightarrow> int \<times> int \<times> int" where
  "detection_error m =
     (case connected_errormaps m of
        (tpcmap, fncmap, fpcmap) \<Rightarrow>
          (let defn = sum_list (flat fncmap);
               defp = sum_list (flat fpcmap)
           in (defn + defp, defp, defn)))"

section \<open>What the specification asks of the borders and the components\<close>

text \<open>
  The physical distance from a voxel to the nearest voxel of a border map, \<open>None\<close> when
  the border map is empty.
\<close>

definition distance_to_border :: "real list \<Rightarrow> int ndarray \<Rightarrow> coord \<Rightarrow> real option" where
  "distance_to_border sampling border c =
     (case filter (\<lambda>b. lookup border b \<noteq> Some 0) (indices (shape border)) of
        [] \<Rightarrow> None
      | b # bs \<Rightarrow> Some (sqrt (min_of (sq_dist sampling c b) (map (sq_dist sampling c) bs))))"

text \<open>The Jaccard index of the two border maps.\<close>

definition border_jaccard :: "'m binary_measures_scheme \<Rightarrow> npfloat" where
  "border_jaccard m =
     (let border_ref = border_map (MorphologyOps (ref m) (neigh m));
          border_pred = border_map (MorphologyOps (pred m) (neigh m));
          inter = int_sum (arr_map2 (\<lambda>a b. int8 (a * b)) border_ref border_pred)
      in np_div inter (int_sum border_ref + int_sum border_pred - inter))"

text \<open>
  The number of voxels in the components of a labelling that do not meet the
  intersection \<^verbatim>\<open>init\<close>, whatever their label.
\<close>

definition unmatched_voxels :: "int ndarray \<Rightarrow> real ndarray \<Rightarrow> int" where
  "unmatched_voxels labels init =
     (let matched = map fst (filter (\<lambda>(l, i). l \<noteq> 0 \<and> i > 0) (zip (flat labels) (flat init)))
      in int (length (filter (\<lambda>l. l \<noteq> 0 \<and> l \<notin> set matched) (flat labels))))"

text \<open>
  The detection error that the specification describes: all voxels of every unmatched
  component of the reference (false negatives) and of the prediction (false positives).
\<close>

definition unmatched_volume :: "'m binary_measures_scheme \<Rightarrow> int \<times> int \<times> int" where
  "unmatched_volume m =
     (case connected_components m of
        (blobs_ref, blobs_pred, init) \<Rightarrow>
          (let defn = unmatched_voxels (fst blobs_ref) init;
               defp = unmatched_voxels (fst blobs_pred) init
           in (defn + defp, defp, defn)))"

section \<open>Example inputs\<close>


text \<open>Both masks empty, with the \<^verbatim>\<open>empty\<close> flag set.\<close>

definition empty_flagged :: binary_measures where
  "empty_flagged = \<lparr>pred = \<lparr>shape = [2, 3], flat = [0, 0, 0, 0, 0, 0]\<rparr>,
                    ref = \<lparr>shape = [2, 3], flat = [0, 0, 0, 0, 0, 0]\<rparr>,
                    flag_empty = True, dict_args = Map.empty, neigh = 8, pixdim = [1, 1, 1]\<rparr>"

text \<open>Two probabilities against a reference with one positive voxel, and against an
  empty reference.\<close>

definition sweep_example :: "unit probability_measures_scheme" where
  "sweep_example = \<lparr>pred = \<lparr>shape = [3], flat = [0.2, 0.8, 0.5]\<rparr>,
                    ref = \<lparr>shape = [3], flat = [0, 1, 1]\<rparr>,
                    flag_empty = False, dict_args = Map.empty, case_ids = None\<rparr>"

definition sweep_empty_ref :: "unit probability_measures_scheme" where
  "sweep_empty_ref = \<lparr>pred = \<lparr>shape = [2], flat = [0.2, 0.8]\<rparr>,
                      ref = \<lparr>shape = [2], flat = [0, 0]\<rparr>,
                      flag_empty = False, dict_args = Map.empty, case_ids = None\<rparr>"

text \<open>One calibration bin, every prediction 0.7, half of the reference positive.\<close>

definition single_bin :: "unit probability_measures_scheme" where
  "single_bin = \<lparr>pred = \<lparr>shape = [2, 2], flat = [0.7, 0.7, 0.7, 0.7]\<rparr>,
                 ref = \<lparr>shape = [2, 2], flat = [1, 0, 0, 1]\<rparr>,
                 flag_empty = False, dict_args = [''bins_ece'' \<mapsto> 1], case_ids = None\<rparr>"

text \<open>Two of four predictions are exactly 0.\<close>

definition with_zero_pred :: "unit probability_measures_scheme" where
  "with_zero_pred = \<lparr>pred = \<lparr>shape = [4], flat = [0, 0.7, 0, 0.7]\<rparr>,
                     ref = \<lparr>shape = [4], flat = [1, 1, 0, 1]\<rparr>,
                     flag_empty = False, dict_args = [''bins_ece'' \<mapsto> 1], case_ids = None\<rparr>"

text \<open>
  Masks on a line of three voxels, as arrays of shape \<open>(1, 1, 3)\<close> with the default
  spacing: overlapping masks, a mask compared with itself, a single voxel compared
  with itself, two empty masks, and a reference voxel that the prediction misses.
\<close>

definition on_line :: "real list \<Rightarrow> real list \<Rightarrow> binary_measures" where
  "on_line p r = \<lparr>pred = \<lparr>shape = [1, 1, length p], flat = p\<rparr>,
                  ref = \<lparr>shape = [1, 1, length r], flat = r\<rparr>,
                  flag_empty = False, dict_args = Map.empty, neigh = 8, pixdim = [1, 1, 1]\<rparr>"

definition overlapping :: binary_measures where
  "overlapping = on_line [0, 1, 1] [1, 1, 0]"

definition same_mask :: binary_measures where
  "same_mask = on_line [1, 0, 0] [1, 0, 0]"

definition single_voxel :: binary_measures where
  "single_voxel = on_line [1] [1]"

definition both_empty :: binary_measures where
  "both_empty = on_line [0, 0, 0] [0, 0, 0]"

definition missed_voxel :: binary_measures where
  "missed_voxel = on_line [0, 0, 0] [1, 0, 0]"

section \<open>Properties of the confusion counts\<close>





text \<open>
  C8. When the comparison was built with the \<^verbatim>\<open>empty\<close> flag,
  \<^verbatim>\<open>positive_predictive_values\<close> returns the sentinel \<open>-1\<close>, whatever the masks are; it is
  not \<^verbatim>\<open>nan\<close>.
\<close>

theorem ppv_sentinel_when_empty_flag:
  assumes "flag_empty m"
  shows "positive_predictive_values m = Fin (- 1) \<and> positive_predictive_values m \<noteq> NaN"
  using assms by (simp add: positive_predictive_values_def)

theorem ppv_sentinel_when_empty_flag_witness:
  "flag_empty empty_flagged \<and> np_sum (pred empty_flagged) = 0 \<and> np_sum (ref empty_flagged) = 0
   \<and> positive_predictive_values empty_flagged = Fin (- 1)
   \<and> positive_predictive_values empty_flagged \<noteq> NaN"
proof -
  have h: "flag_empty empty_flagged" by (simp add: empty_flagged_def)
  have z: "np_sum (pred empty_flagged) = 0" "np_sum (ref empty_flagged) = 0"
    by (simp_all add: empty_flagged_def np_sum_def)
  from h z ppv_sentinel_when_empty_flag [OF h] show ?thesis by simp
qed

section \<open>Properties of the threshold sweep\<close>

lemma tp_cell_antitone:
  fixes p r :: real
  assumes "t1 \<le> t2"
  shows "indicator (r + indicator (p \<ge> t2) > 1) \<le> indicator (r + indicator (p \<ge> t1) > 1)"
  using assms by (auto simp: indicator_def)

lemma tp_list_antitone:
  fixes ps rs :: "real list"
  assumes "t1 \<le> t2"
  shows "sum_list (map2 (\<lambda>b r. indicator (r + b > 1)) (map (\<lambda>p. indicator (p \<ge> t2)) ps) rs)
       \<le> sum_list (map2 (\<lambda>b r. indicator (r + b > 1)) (map (\<lambda>p. indicator (p \<ge> t1)) ps) rs)"
proof (induction ps arbitrary: rs)
  case Nil
  then show ?case by simp
next
  case (Cons p ps)
  show ?case
  proof (cases rs)
    case Nil
    then show ?thesis by simp
  next
    case (Cons r rs')
    with Cons.IH [of rs'] tp_cell_antitone [OF assms, of r p] show ?thesis by simp
  qed
qed

lemma tp_thr_antitone: "t1 \<le> t2 \<Longrightarrow> tp_thr m t2 \<le> tp_thr m t1"
  by (simp add: tp_thr_def tp_map_thr_def pred_bin_def arr_map2_def arr_map_def np_sum_def
      tp_list_antitone)

lemma np_div_mono: "0 < d \<Longrightarrow> a \<le> b \<Longrightarrow> np_le (np_div a d) (np_div b d)"
  by (simp add: np_div_def divide_right_mono)

lemma sensitivity_thr_antitone:
  "0 < n_pos_ref m \<Longrightarrow> t1 \<le> t2 \<Longrightarrow> np_le (sensitivity_thr m t2) (sensitivity_thr m t1)"
  by (simp add: sensitivity_thr_def np_div_mono tp_thr_antitone)

lemma rev_sort_decreasing: "sorted_wrt (\<lambda>a b. b \<le> a) (rev (sort (xs::real list)))"
  by (simp add: sorted_wrt_rev)

lemma collect_length: "collect g xs = Inr ys \<Longrightarrow> length ys = length xs"
  by (induction xs arbitrary: ys) (auto split: sum.splits)

text \<open>
  C6 (as amended). Whenever \<^verbatim>\<open>all_multi_threshold_values\<close> returns its table for a pair
  whose reference sums to a positive value, the thresholds are emitted in decreasing
  order and the sensitivities are non-decreasing along that order, that is,
  non-increasing as the threshold increases; the true-positive count at a threshold is
  antitone in the threshold for every pair.
\<close>

theorem sensitivity_monotone_along_curve:
  assumes "all_multi_threshold_values m ns nt = Inr (thr, list_sens, list_spec, list_ppv, list_fppi)"
    and "0 < n_pos_ref m"
  shows "sorted_wrt (\<lambda>a b. b \<le> a) thr \<and> list_sens = map (sensitivity_thr m) thr
       \<and> sorted_wrt np_le list_sens
       \<and> (\<forall>t1 t2. t1 \<le> t2 \<longrightarrow> tp_thr m t2 \<le> tp_thr m t1)"
proof -
  from assms(1) obtain u where u: "thr = rev (sort u)" and s: "list_sens = map (sensitivity_thr m) thr"
    by (auto simp: all_multi_threshold_values_def Let_def split: sum.splits)
  from u have dec: "sorted_wrt (\<lambda>a b. b \<le> a) thr" by (simp add: rev_sort_decreasing)
  have "sorted_wrt (\<lambda>a b. np_le (sensitivity_thr m a) (sensitivity_thr m b)) thr"
    using dec by (rule sorted_wrt_mono_rel [rotated]) (simp add: sensitivity_thr_antitone assms(2))
  then have "sorted_wrt np_le list_sens" by (simp add: s sorted_wrt_map)
  with dec s tp_thr_antitone show ?thesis by blast
qed

lemma coalesce_loop_returns:
  "new_thresh \<noteq> None \<or> real current_count < bnd \<Longrightarrow>
   \<exists>r. coalesce_loop bnd xs acc current_count new_thresh = Inr r"
proof (induction xs arbitrary: acc current_count new_thresh)
  case Nil
  then show ?case by simp
next
  case (Cons x xs)
  obtain f c where x: "x = (f, c)" by (cases x)
  show ?case
  proof (cases "real current_count < bnd")
    case True
    with Cons.IH [of "Some f" "current_count + c" acc] x show ?thesis by simp
  next
    case False
    with Cons.prems obtain t where t: "new_thresh = Some t" by auto
    with False Cons.IH [of "Some t" 0 "acc @ [t]"] x show ?thesis by simp
  qed
qed


text \<open>
  Without case identifiers, on a non-empty array and with positive caps, the sweep
  returns its table: no branch of it raises.
\<close>

lemma collect_returns:
  assumes "\<And>x. \<exists>y. g x = Inr y"
  shows "\<exists>ys. collect g xs = Inr ys"
proof (induction xs)
  case Nil
  then show ?case by simp
next
  case (Cons x xs)
  from assms obtain y where "g x = Inr y" by blast
  with Cons show ?case by auto
qed

lemma select_thresholds_returns:
  assumes "wf_array (pred m)" and "0 < ns" and "0 < nt"
  shows "\<exists>u. select_thresholds m ns nt = Inr u"
proof (cases "length (np_unique (flat (pred m))) < nt \<or> np_size (ref m) < ns")
  case True
  then show ?thesis by (auto simp: select_thresholds_def Let_def)
next
  case False
  with assms(3) have "np_unique (flat (pred m)) \<noteq> []" by auto
  then have "flat (pred m) \<noteq> []" by (auto simp: np_unique_def)
  then have "0 < length (flat (pred m))" by simp
  with assms(1) have "0 < np_size (pred m)" by (simp add: wf_array_def np_size_def)
  with assms(3) have "real 0 < real (np_size (pred m)) / real nt" by simp
  then have "\<exists>r. coalesce_loop (real (np_size (pred m)) / real nt)
      (np_unique_counts (flat (pred m))) [0] 0 None = Inr r"
    by (intro coalesce_loop_returns) simp
  with False assms(2,3) show ?thesis by (auto simp: select_thresholds_def Let_def)
qed

lemma all_multi_threshold_values_returns:
  assumes "case_ids m = None" and "shape (ref m) \<noteq> []" and "last (shape (ref m)) \<noteq> 0"
    and "wf_array (pred m)" and "0 < ns" and "0 < nt"
  shows "\<exists>r. all_multi_threshold_values m ns nt = Inr r"
proof -
  from select_thresholds_returns [OF assms(4-6)] obtain u
    where u: "select_thresholds m ns nt = Inr u" by blast
  have "\<exists>y. fppi_thr m x = Inr y" for x
    using assms(1-3) by (auto simp: fppi_thr_def split: list.splits)
  from collect_returns [of "fppi_thr m", OF this] obtain ys
    where "collect (fppi_thr m) (rev (sort u)) = Inr ys" by blast
  with u show ?thesis by (simp add: all_multi_threshold_values_def Let_def)
qed

lemma sweep_example_curve:
  "all_multi_threshold_values sweep_example 150 1500 =
     Inr ([0.8, 0.5, 0.2], [Fin 0.5, Fin 1, Fin 1], [Fin 1, Fin 1, Fin 0],
          [Fin 1, Fin 1, Fin (2 / 3)], [Fin 0, Fin 0, Fin (1 / 3)])"
  by (simp add: all_multi_threshold_values_def select_thresholds_def sweep_example_def
      np_unique_def fppi_thr_def np_mean_def column_sums_def fp_map_thr_def pred_bin_def
      arr_map_def arr_map2_def indicator_def sensitivity_thr_def specificity_thr_def
      positive_predictive_values_thr_def tp_thr_def tn_thr_def fp_thr_def tp_map_thr_def
      tn_map_thr_def n_pos_ref_def n_neg_ref_def np_sum_def np_div_def np_size_def
      upt_conv_Cons)

theorem sensitivity_monotone_along_curve_witness:
  "all_multi_threshold_values sweep_example 150 1500 =
     Inr ([0.8, 0.5, 0.2], [Fin 0.5, Fin 1, Fin 1], [Fin 1, Fin 1, Fin 0],
          [Fin 1, Fin 1, Fin (2 / 3)], [Fin 0, Fin 0, Fin (1 / 3)])
   \<and> 0 < n_pos_ref sweep_example
   \<and> sorted_wrt (\<lambda>a b. b \<le> a) [0.8, 0.5, 0.2 :: real]
   \<and> sorted_wrt np_le [Fin 0.5, Fin 1, Fin 1]"
proof -
  have p: "0 < n_pos_ref sweep_example"
    by (simp add: sweep_example_def n_pos_ref_def np_sum_def)
  from sensitivity_monotone_along_curve [OF sweep_example_curve p] sweep_example_curve p
  show ?thesis by blast
qed

text \<open>
  C6 as stated, for every pair, fails on an empty reference: each sensitivity is
  \<^verbatim>\<open>0/0 = nan\<close>, and \<^verbatim>\<open>nan <= nan\<close> is false.
\<close>

theorem sensitivity_sequence_counterexample:
  "all_multi_threshold_values sweep_empty_ref 150 1500 =
     Inr ([0.8, 0.2], [NaN, NaN], [Fin 0.5, Fin 0], [Fin 0, Fin 0], [Fin 0.5, Fin 1])
   \<and> \<not> sorted_wrt np_le [NaN, NaN]"
  by (simp add: all_multi_threshold_values_def select_thresholds_def sweep_empty_ref_def
      np_unique_def fppi_thr_def np_mean_def column_sums_def fp_map_thr_def pred_bin_def
      arr_map_def arr_map2_def indicator_def sensitivity_thr_def specificity_thr_def
      positive_predictive_values_thr_def tp_thr_def tn_thr_def fp_thr_def tp_map_thr_def
      tn_map_thr_def n_pos_ref_def n_neg_ref_def np_sum_def np_div_def np_size_def
      upt_conv_Cons)

section \<open>Properties of the calibration error\<close>

lemma np_arange_single: "np_arange 0 (100001 / 100000) 1 = [0, 1]"
  by (simp add: np_arange_def upt_conv_Cons)

lemma np_arange_nonneg:
  assumes "x \<in> set (np_arange 0 stop step)" and "0 \<le> stop"
  shows "0 \<le> x"
proof (cases "0 < step")
  case True
  with assms(1) show ?thesis by (auto simp: np_arange_def)
next
  case False
  with assms(2) have "(stop - 0) / step \<le> 0" by (simp add: divide_le_0_iff)
  then have "\<lceil>(stop - 0) / step\<rceil> \<le> 0" by (simp add: ceiling_le_iff)
  then have "np_arange 0 stop step = []" by (simp add: np_arange_def)
  with assms(1) show ?thesis by simp
qed

lemma ref_sel_const:
  fixes ps rs :: "real list"
  assumes "length ps = length rs" and "list_all (\<lambda>p. p = c) ps" and "l < c" and "c \<le> u"
    and "list_all (\<lambda>v. v = 0 \<or> v = 1) rs"
  shows "ref_sel l u ps rs = rs"
  using assms unfolding ref_sel_def Let_def by (induction ps rs rule: list_induct2) auto

lemma pred_sel_const:
  fixes ps :: "real list"
  assumes "list_all (\<lambda>p. p = c) ps" and "l < c" and "c \<le> u" and "- 1 < c"
  shows "pred_sel l u ps = ps"
  using assms unfolding pred_sel_def Let_def by (induction ps) auto

lemma sum_list_const:
  fixes ps :: "real list"
  shows "list_all (\<lambda>p. p = c) ps \<Longrightarrow> sum_list ps = real (length ps) * c"
  by (induction ps) (auto simp: algebra_simps)

text \<open>
  C9. With \<^verbatim>\<open>bins_ece = 1\<close>, every predicted probability equal to 0.7 and a binary
  reference whose positive rate is 0.5, \<^verbatim>\<open>expectation_calibration_error\<close> returns
  \<open>\<bar>0.5 - 0.7\<bar> = 0.2\<close>.
\<close>

theorem single_bin_calibration_error:
  assumes bins: "dict_args m ''bins_ece'' = Some 1"
    and preds: "list_all (\<lambda>p. p = 0.7) (flat (pred m))"
    and wf: "wf_array (pred m)" and bin: "binary_mask (ref m)"
    and sh: "shape (pred m) = shape (ref m)"
    and ne: "0 < np_size (ref m)"
    and rate: "n_pos_ref m / real (np_size (ref m)) = 0.5"
  shows "expectation_calibration_error m = Inr (Fin \<bar>0.5 - 0.7\<bar>)
       \<and> expectation_calibration_error m = Inr (Fin 0.2)"
proof -
  let ?ps = "flat (pred m)" and ?rs = "flat (ref m)"
  let ?n = "length ?rs"
  from wf bin sh have len: "length ?ps = ?n" and n: "?n = np_size (ref m)"
    by (simp_all add: binary_mask_def wf_array_def np_size_def)
  from bin have vals: "list_all (\<lambda>v. v = 0 \<or> v = 1) ?rs" by (simp add: binary_mask_def)
  have rsel: "ref_sel 0 1 ?ps ?rs = ?rs"
    using ref_sel_const [OF len preds _ _ vals, of 0 1] by simp
  have psel: "pred_sel 0 1 ?ps = ?ps"
    using pred_sel_const [OF preds, of 0 1] by simp
  from ne n have pos: "0 < ?n" by simp
  from rate n have propv: "sum_list ?rs / real ?n = 0.5" by (simp add: n_pos_ref_def np_sum_def)
  from sum_list_const [OF preds] len pos have meanv: "sum_list ?ps / real ?n = 0.7"
    by simp
  have bv: "bin_value 0 1 ?ps ?rs = real ?n * \<bar>0.5 - 0.7\<bar>"
    using pos by (simp add: bin_value_def rsel psel propv meanv len Let_def)
  have loop: "ece_loop [(0, 1)] ?ps ?rs [] 0 = ([bin_value 0 1 ?ps ?rs], ?n)"
    by (simp add: rsel)
  have "ece_bins m = Inr ([bin_value 0 1 ?ps ?rs], ?n)"
    by (simp add: ece_bins_def bins np_arange_single rsel Let_def)
  then have "expectation_calibration_error m = Inr (Fin \<bar>0.5 - 0.7\<bar>)"
    using pos by (simp add: expectation_calibration_error_def np_div_def bv)
  then show ?thesis by simp
qed

theorem single_bin_calibration_error_witness:
  "dict_args single_bin ''bins_ece'' = Some 1
   \<and> list_all (\<lambda>p. p = 0.7) (flat (pred single_bin))
   \<and> wf_array (pred single_bin) \<and> binary_mask (ref single_bin)
   \<and> shape (pred single_bin) = shape (ref single_bin)
   \<and> 0 < np_size (ref single_bin)
   \<and> n_pos_ref single_bin / real (np_size (ref single_bin)) = 0.5
   \<and> expectation_calibration_error single_bin = Inr (Fin 0.2)"
proof -
  have h: "dict_args single_bin ''bins_ece'' = Some 1"
    "list_all (\<lambda>p. p = 0.7) (flat (pred single_bin))"
    "wf_array (pred single_bin)" "binary_mask (ref single_bin)"
    "shape (pred single_bin) = shape (ref single_bin)"
    "0 < np_size (ref single_bin)"
    "n_pos_ref single_bin / real (np_size (ref single_bin)) = 0.5"
    by (simp_all add: single_bin_def wf_array_def binary_mask_def np_size_def n_pos_ref_def
        np_sum_def)
  from single_bin_calibration_error [OF h] h show ?thesis by blast
qed

lemma pred_sel_nonempty:
  assumes "length ps = length rs" and "- 1 \<le> l" and "ref_sel l u ps rs \<noteq> []"
  shows "pred_sel l u ps \<noteq> []"
  using assms unfolding ref_sel_def pred_sel_def Let_def
  by (induction ps rs rule: list_induct2) (auto split: if_splits)

lemma ref_sel_without_zero:
  fixes zs :: "(real \<times> real) list"
  assumes "0 \<le> l"
  shows "ref_sel l u (map fst (filter (\<lambda>(p, r). p \<noteq> 0) zs)) (map snd (filter (\<lambda>(p, r). p \<noteq> 0) zs))
       = ref_sel l u (map fst zs) (map snd zs)"
  using assms unfolding ref_sel_def Let_def by (induction zs) (auto simp: zip_map_fst_snd)

lemma pred_sel_without_zero:
  fixes zs :: "(real \<times> real) list"
  assumes "0 \<le> l"
  shows "pred_sel l u (map fst (filter (\<lambda>(p, r). p \<noteq> 0) zs)) = pred_sel l u (map fst zs)"
  using assms unfolding pred_sel_def Let_def by (induction zs) auto

lemma bin_value_without_zero:
  assumes "0 \<le> l"
  shows "bin_value l u (map fst (filter (\<lambda>(p, r). p \<noteq> 0) zs)) (map snd (filter (\<lambda>(p, r). p \<noteq> 0) zs))
       = bin_value l u (map fst zs) (map snd zs)"
  by (simp add: bin_value_def ref_sel_without_zero [OF assms] pred_sel_without_zero [OF assms]
      cong: if_cong)

lemma ece_loop_without_zero:
  assumes "\<forall>(l, u) \<in> set bins. 0 \<le> l"
  shows "ece_loop bins (map fst (filter (\<lambda>(p, r). p \<noteq> 0) zs)) (map snd (filter (\<lambda>(p, r). p \<noteq> 0) zs)) lv ns
       = ece_loop bins (map fst zs) (map snd zs) lv ns"
  using assms
  by (induction bins arbitrary: lv ns)
     (auto simp: bin_value_without_zero ref_sel_without_zero)

lemma bins_lower_nonneg:
  assumes "0 \<le> stop"
  shows "\<forall>(l, u) \<in> set (zip (butlast (np_arange 0 stop step)) (tl (np_arange 0 stop step))). 0 \<le> l"
proof -
  have "0 \<le> l" if "(l, u) \<in> set (zip (butlast (np_arange 0 stop step)) (tl (np_arange 0 stop step)))"
    for l u
  proof -
    from that have "l \<in> set (butlast (np_arange 0 stop step))" by (rule set_zip_leftD)
    then have "l \<in> set (np_arange 0 stop step)" by (rule in_set_butlastD)
    with assms show ?thesis by (rule np_arange_nonneg [rotated])
  qed
  then show ?thesis by auto
qed

text \<open>
  C10. Voxels whose predicted probability is exactly 0 lie in no bin (each bin selects
  \<open>l < pred \<le> u\<close> and no lower edge is negative): removing them changes neither the
  value that any bin appends to \<^verbatim>\<open>list_values\<close> nor \<^verbatim>\<open>numb_samples\<close>, hence not the
  result.
\<close>

theorem zero_predictions_excluded_from_calibration:
  assumes "length (flat (pred m)) = length (flat (ref m))"
  shows "ece_bins (without_zero_pred m) = ece_bins m
       \<and> expectation_calibration_error (without_zero_pred m) = expectation_calibration_error m"
proof -
  let ?zs = "zip (flat (pred m)) (flat (ref m))"
  from assms have ps: "map fst ?zs = flat (pred m)" and rs: "map snd ?zs = flat (ref m)"
    by simp_all
  have "ece_bins (without_zero_pred m) = ece_bins m"
    using ece_loop_without_zero [OF bins_lower_nonneg, of "100001 / 100000" _ ?zs]
    by (simp add: ece_bins_def without_zero_pred_def Let_def ps rs)
  then show ?thesis by (simp add: expectation_calibration_error_def)
qed


lemma with_zero_pred_bins: "ece_bins with_zero_pred = Inr ([0.6], 2)"
  by (simp add: ece_bins_def with_zero_pred_def np_arange_single Let_def bin_value_def
      ref_sel_def pred_sel_def)

theorem zero_predictions_excluded_from_calibration_witness:
  "length (flat (pred with_zero_pred)) = length (flat (ref with_zero_pred))
   \<and> flat (pred (without_zero_pred with_zero_pred)) = [0.7, 0.7]
   \<and> ece_bins with_zero_pred = Inr ([0.6], 2)
   \<and> ece_bins (without_zero_pred with_zero_pred) = Inr ([0.6], 2)
   \<and> expectation_calibration_error (without_zero_pred with_zero_pred)
       = expectation_calibration_error with_zero_pred"
proof -
  have h: "length (flat (pred with_zero_pred)) = length (flat (ref with_zero_pred))"
    by (simp add: with_zero_pred_def)
  have k: "flat (pred (without_zero_pred with_zero_pred)) = [0.7, 0.7]"
    by (simp add: with_zero_pred_def without_zero_pred_def)
  from zero_predictions_excluded_from_calibration [OF h] h k with_zero_pred_bins
  show ?thesis by simp
qed

section \<open>Properties of the border, distance and component measures\<close>

lemmas grid_eval =
  indices_def in_bounds_def ravel_def lookup_def from_fun_def unit_offsets_def
  structure_offsets_def shift_def int8_def as_int8_def MorphologyOps_def binary_erosion_def
  border_map_def arr_map_def arr_map2_def upt_conv_Cons Let_def

text \<open>
  In an array of shape \<open>(1, 1, n)\<close> every voxel has a neighbour outside the array, so the
  erosion is empty and the border map is the mask itself.
\<close>

lemma overlapping_borders:
  "border_map (MorphologyOps (ref overlapping) (neigh overlapping))
     = \<lparr>shape = [1, 1, 3], flat = [1, 1, 0]\<rparr>"
  "border_map (MorphologyOps (pred overlapping) (neigh overlapping))
     = \<lparr>shape = [1, 1, 3], flat = [0, 1, 1]\<rparr>"
  by (simp_all add: overlapping_def on_line_def grid_eval)

lemma same_mask_borders:
  "border_map (MorphologyOps (ref same_mask) (neigh same_mask))
     = \<lparr>shape = [1, 1, 3], flat = [1, 0, 0]\<rparr>"
  "border_map (MorphologyOps (pred same_mask) (neigh same_mask))
     = \<lparr>shape = [1, 1, 3], flat = [1, 0, 0]\<rparr>"
  by (simp_all add: same_mask_def on_line_def grid_eval)

lemma single_voxel_borders:
  "border_map (MorphologyOps (ref single_voxel) (neigh single_voxel))
     = \<lparr>shape = [1, 1, 1], flat = [1]\<rparr>"
  "border_map (MorphologyOps (pred single_voxel) (neigh single_voxel))
     = \<lparr>shape = [1, 1, 1], flat = [1]\<rparr>"
  by (simp_all add: single_voxel_def on_line_def grid_eval)

lemma edt_110:
  "distance_transform_edt \<lparr>shape = [1, 1, 3], flat = [1, 1, 0]\<rparr> [1, 1, 1]
     = Inr \<lparr>shape = [1, 1, 3], flat = [2, 1, 0]\<rparr>"
  by (simp add: distance_transform_edt_def sq_dist_def grid_eval)

lemma edt_011:
  "distance_transform_edt \<lparr>shape = [1, 1, 3], flat = [0, 1, 1]\<rparr> [1, 1, 1]
     = Inr \<lparr>shape = [1, 1, 3], flat = [0, 1, 2]\<rparr>"
  by (simp add: distance_transform_edt_def sq_dist_def grid_eval)

lemma edt_100:
  "distance_transform_edt \<lparr>shape = [1, 1, 3], flat = [1, 0, 0]\<rparr> [1, 1, 1]
     = Inr \<lparr>shape = [1, 1, 3], flat = [1, 0, 0]\<rparr>"
  by (simp add: distance_transform_edt_def sq_dist_def grid_eval)

lemma overlapping_pixdim: "pixdim overlapping = [1, 1, 1]"
  by (simp add: overlapping_def on_line_def)

lemma same_mask_fields:
  "pixdim same_mask = [1, 1, 1]" "flat (pred same_mask) = [1, 0, 0]"
  "flat (ref same_mask) = [1, 0, 0]"
  by (simp_all add: same_mask_def on_line_def)

text \<open>
  C1. \<^verbatim>\<open>border_distance\<close> transforms each border map itself, not its complement. For
  the reference \<open>[1, 1, 0]\<close> and the prediction \<open>[0, 1, 1]\<close> the field of distances to
  the prediction border records 0 at the reference-border voxel \<open>(0, 0, 0)\<close>, which is at
  distance 1 from the prediction border, and 1 at \<open>(0, 0, 1)\<close>, where the two borders
  coincide.
\<close>

theorem border_distance_transforms_border_itself:
  "border_distance overlapping =
     Inr (\<lparr>shape = [1, 1, 3], flat = [0, 1, 0]\<rparr>, \<lparr>shape = [1, 1, 3], flat = [0, 1, 0]\<rparr>,
          \<lparr>shape = [1, 1, 3], flat = [1, 1, 0]\<rparr>, \<lparr>shape = [1, 1, 3], flat = [0, 1, 1]\<rparr>)
   \<and> distance_to_border (pixdim overlapping) \<lparr>shape = [1, 1, 3], flat = [0, 1, 1]\<rparr> [0, 0, 0]
       = Some 1
   \<and> distance_to_border (pixdim overlapping) \<lparr>shape = [1, 1, 3], flat = [0, 1, 1]\<rparr> [0, 0, 1]
       = Some 0"
proof -
  have "border_distance overlapping =
     Inr (\<lparr>shape = [1, 1, 3], flat = [0, 1, 0]\<rparr>, \<lparr>shape = [1, 1, 3], flat = [0, 1, 0]\<rparr>,
          \<lparr>shape = [1, 1, 3], flat = [1, 1, 0]\<rparr>, \<lparr>shape = [1, 1, 3], flat = [0, 1, 1]\<rparr>)"
    unfolding border_distance_def overlapping_borders overlapping_pixdim edt_110 edt_011 Let_def
    by (simp add: arr_map2_def)
  moreover have "distance_to_border (pixdim overlapping)
      \<lparr>shape = [1, 1, 3], flat = [0, 1, 1]\<rparr> [0, 0, 0] = Some 1"
    by (simp add: distance_to_border_def overlapping_pixdim sq_dist_def grid_eval)
  moreover have "distance_to_border (pixdim overlapping)
      \<lparr>shape = [1, 1, 3], flat = [0, 1, 1]\<rparr> [0, 0, 1] = Some 0"
    by (simp add: distance_to_border_def overlapping_pixdim sq_dist_def grid_eval)
  ultimately show ?thesis by simp
qed

text \<open>
  C2. For the mask \<open>[1, 0, 0]\<close> compared with itself the border voxel is at distance 1
  from the nearest voxel off the border, which is what the fields record: the Hausdorff
  distance of the mask to itself comes out as 1, not 0.
\<close>

theorem hausdorff_distance_of_mask_to_itself:
  "measured_distance same_mask 95 = Inr [Fin 1, Fin 1, Fin 1, Fin (2 / 3)]
   \<and> measured_hausdorff_distance same_mask = Inr (Fin 1)"
proof -
  have bd: "border_distance same_mask =
     Inr (\<lparr>shape = [1, 1, 3], flat = [1, 0, 0]\<rparr>, \<lparr>shape = [1, 1, 3], flat = [1, 0, 0]\<rparr>,
          \<lparr>shape = [1, 1, 3], flat = [1, 0, 0]\<rparr>, \<lparr>shape = [1, 1, 3], flat = [1, 0, 0]\<rparr>)"
    unfolding border_distance_def same_mask_borders same_mask_fields edt_100 Let_def
    by (simp add: arr_map2_def)
  have md: "measured_distance same_mask 95 = Inr [Fin 1, Fin 1, Fin 1, Fin (2 / 3)]"
    by (simp add: measured_distance_def bd same_mask_fields arr_map2_def np_sum_def int_sum_def
        int8_def np_div_def np_mean_def np_max_def np_percentile_def union_select_def Let_def)
  then show ?thesis by (simp add: measured_hausdorff_distance_def tuple_get_def)
qed

text \<open>
  C3. \<^verbatim>\<open>boundary_iou\<close> divides the size of the intersection of the borders by the sum
  of their sizes, without subtracting the intersection: for a single voxel compared with
  itself it returns 1/2, where the Jaccard index of the borders is 1.
\<close>

theorem boundary_iou_is_not_jaccard:
  "boundary_iou single_voxel = Fin (1 / 2) \<and> border_jaccard single_voxel = Fin 1"
  by (simp add: boundary_iou_def border_jaccard_def single_voxel_borders arr_map2_def
      int_sum_def int8_def np_div_def)

text \<open>
  C4. When both masks are empty \<^verbatim>\<open>measured_distance\<close> returns the tuple \<open>(0, 0, 0)\<close>:
  \<^verbatim>\<open>hd\<close>, \<^verbatim>\<open>assd\<close> and \<^verbatim>\<open>hd_perc\<close> read 0 from it, and \<^verbatim>\<open>masd\<close> reads its component 3,
  which the tuple does not have.
\<close>

lemma empty_pair_measured_distance:
  "np_sum (arr_map2 (+) (pred m) (ref m)) = 0 \<Longrightarrow>
   measured_distance m perc = Inr [Fin 0, Fin 0, Fin 0]"
  by (simp add: measured_distance_def)

lemma empty_pair_distance_metrics:
  assumes "np_sum (arr_map2 (+) (pred m) (ref m)) = 0"
  shows "measured_hausdorff_distance m = Inr (Fin 0)"
    and "measured_average_distance m = Inr (Fin 0)"
    and "measured_hausdorff_distance_perc m = Inr (Fin 0)"
    and "measured_masd m = Inl IndexError"
  by (simp_all add: measured_hausdorff_distance_def measured_average_distance_def
      measured_hausdorff_distance_perc_def measured_masd_def tuple_get_def
      empty_pair_measured_distance [OF assms])

theorem masd_of_empty_pair_fails:
  "measured_distance both_empty 95 = Inr [Fin 0, Fin 0, Fin 0]
   \<and> measured_hausdorff_distance both_empty = Inr (Fin 0)
   \<and> measured_average_distance both_empty = Inr (Fin 0)
   \<and> measured_hausdorff_distance_perc both_empty = Inr (Fin 0)
   \<and> measured_masd both_empty = Inl IndexError"
proof -
  have e: "np_sum (arr_map2 (+) (pred both_empty) (ref both_empty)) = 0"
    by (simp add: both_empty_def on_line_def arr_map2_def np_sum_def)
  from empty_pair_measured_distance [OF e] empty_pair_distance_metrics [OF e]
  show ?thesis by simp
qed

text \<open>
  C5. \<^verbatim>\<open>connected_errormaps\<close> walks over \<^verbatim>\<open>range(1, blobs[1])\<close>, which leaves out the
  component with the highest label. A reference of one voxel that the prediction misses
  is one unmatched component of one voxel (\<^verbatim>\<open>connected_elements\<close> counts it), and
  \<^verbatim>\<open>detection_error\<close> returns 0 for it.
\<close>

lemma missed_voxel_components:
  "connected_components missed_voxel =
     ((\<lparr>shape = [1, 1, 3], flat = [1, 0, 0]\<rparr>, 1), (\<lparr>shape = [1, 1, 3], flat = [0, 0, 0]\<rparr>, 0),
      \<lparr>shape = [1, 1, 3], flat = [0, 0, 0]\<rparr>)"
  by (simp add: connected_components_def foreground_component_def label_def label_step_def
      missed_voxel_def on_line_def grid_eval enumerate_eq_zip numeral_3_eq_3)

theorem detection_error_skips_highest_label:
  "detection_error missed_voxel = (0, 0, 0)
   \<and> unmatched_volume missed_voxel = (1, 0, 1)
   \<and> connected_elements missed_voxel = (0, 0, 1)"
  by (auto simp: detection_error_def connected_errormaps_def unmatched_volume_def
      unmatched_voxels_def connected_elements_def missed_voxel_components list_tp_def
      np_unique_def Let_def)

end
